theory Spec2Isabelle
  imports Complex_Main "HOL-Library.Word" "HOL-Library.Sublist"
begin

section \<open>Strings of the platform\<close>

text \<open>
  A JavaScript string is a sequence of 16-bit code units. String literals of the source
  are ASCII and are written through \<open>ustr\<close>, which maps every character of an Isabelle
  string to the code unit of the same number.
\<close>

type_synonym code_unit = "16 word"
type_synonym js_string = "code_unit list"

definition ustr :: "string \<Rightarrow> js_string" where
  "ustr s = map (\<lambda>c. of_nat (of_char c)) s"

text \<open>
  \<open>String.prototype.trim\<close> removes the ECMAScript white space and line terminator code
  points from both ends: TAB, LF, VT, FF, CR, SPACE, NBSP, U+1680, U+2000 to U+200A,
  U+2028, U+2029, U+202F, U+205F, U+3000 and U+FEFF. All of them are single code units.
\<close>

definition is_js_whitespace :: "code_unit \<Rightarrow> bool" where
  "is_js_whitespace c \<longleftrightarrow>
     c = 0x9 \<or> c = 0xA \<or> c = 0xB \<or> c = 0xC \<or> c = 0xD \<or> c = 0x20 \<or> c = 0xA0 \<or>
     c = 0x1680 \<or> (0x2000 \<le> c \<and> c \<le> 0x200A) \<or> c = 0x2028 \<or> c = 0x2029 \<or>
     c = 0x202F \<or> c = 0x205F \<or> c = 0x3000 \<or> c = 0xFEFF"

definition js_trim :: "js_string \<Rightarrow> js_string" where
  "js_trim s = rev (dropWhile is_js_whitespace (rev (dropWhile is_js_whitespace s)))"

text \<open>\<open>String.prototype.includes\<close>: the needle occurs as a contiguous run of code units.\<close>

fun js_includes :: "js_string \<Rightarrow> js_string \<Rightarrow> bool" where
  "js_includes [] needle = (needle = [])"
| "js_includes (c # cs) needle = (prefix needle (c # cs) \<or> js_includes cs needle)"

section \<open>Values returned by \<open>JSON.parse\<close>\<close>

text \<open>
  Numbers are kept as rationals: the handler only tests a number for being zero.
  An object is the list of its own properties; a property read returns the first
  binding of the name.
\<close>

datatype json =
    JNull
  | JBool bool
  | JNumber rat
  | JString js_string
  | JArray "json list"
  | JObject "(js_string \<times> json) list"

text \<open>
  What the page gets from the platform and from the vendor library, neither of which is
  part of the repository: the parser (\<open>Inl\<close> is the message of the \<open>SyntaxError\<close> it
  throws), the string conversion applied when a value that is not a string is assigned
  to the \<open>value\<close> of a text area, and the message of the \<open>TypeError\<close> thrown when a
  property of \<open>null\<close> is read (it differs between engines).
\<close>

record platform =
  JSON_parse :: "js_string \<Rightarrow> js_string + json"
  ToString :: "json \<Rightarrow> js_string"
  null_read_message :: "js_string \<Rightarrow> js_string"

text \<open>
  Reading \<open>v.name\<close>: \<open>None\<close> is \<open>undefined\<close>. Booleans, numbers, strings and arrays have
  no property called \<open>improvedPrompt\<close> or \<open>explanation\<close>; reading from \<open>null\<close> throws.
\<close>

definition get_property :: "platform \<Rightarrow> json \<Rightarrow> js_string \<Rightarrow> js_string + json option" where
  "get_property P v name =
     (case v of
        JNull \<Rightarrow> Inl (null_read_message P name)
      | JObject props \<Rightarrow> Inr (map_of props name)
      | _ \<Rightarrow> Inr None)"

text \<open>Truthiness of a value in a condition (\<open>ToBoolean\<close>).\<close>

fun truthy :: "json option \<Rightarrow> bool" where
  "truthy None = False"
| "truthy (Some JNull) = False"
| "truthy (Some (JBool b)) = b"
| "truthy (Some (JNumber r)) = (r \<noteq> 0)"
| "truthy (Some (JString s)) = (s \<noteq> [])"
| "truthy (Some (JArray _)) = True"
| "truthy (Some (JObject _)) = True"

text \<open>
  The string stored when the result of a property read is assigned to the \<open>value\<close> of a
  text area: a string as it is, anything else converted.
\<close>

definition value_string :: "platform \<Rightarrow> json option \<Rightarrow> js_string" where
  "value_string P v =
     (case v of
        None \<Rightarrow> ustr ''undefined''
      | Some (JString s) \<Rightarrow> s
      | Some w \<Rightarrow> ToString P w)"

section \<open>State of the page\<close>

text \<open>
  One outbound call of \<open>ai.models.generateContent\<close>: the key the client was built with,
  the model, the text of the single part, and the response configuration.
\<close>

record request =
  req_apiKey :: js_string
  req_model :: js_string
  req_text :: js_string
  req_responseMimeType :: js_string
  req_required :: "js_string list"

text \<open>
  The variable \<open>userApiKey\<close>, local storage, the parts of the DOM elements that the
  handlers read and write, the console, and the log of the network calls issued so far.
  The class list of the modal is kept as the membership of the class \<open>hidden\<close>. An
  element value is a cell holding the string last assigned, and the operations of local
  storage succeed. \<open>copyToClipboard\<close> reads the text areas and changes only the copy
  button it was given, which is not part of this state.
\<close>

record app_state =
  userApiKey :: "js_string option"
  localStorage :: "js_string \<rightharpoonup> js_string"
  originalPrompt_value :: js_string
  improveButton_disabled :: bool
  improveButton_innerHTML :: js_string
  status_textContent :: js_string
  improvedPrompt_value :: js_string
  explanation_value :: js_string
  apiKeyModal_hidden :: bool
  apiKeyInput_value :: js_string
  console_errors :: "js_string list"
  requests :: "request list"

definition API_KEY_STORAGE_KEY :: js_string where
  "API_KEY_STORAGE_KEY = ustr ''gemini-api-key''"

text \<open>\<open>!userApiKey\<close>: \<open>null\<close> and the empty string are falsy.\<close>

definition key_falsy :: "js_string option \<Rightarrow> bool" where
  "key_falsy k = (case k of None \<Rightarrow> True | Some v \<Rightarrow> v = [])"

section \<open>API key management\<close>

definition showApiKeyModal :: "app_state \<Rightarrow> app_state" where
  "showApiKeyModal s =
     s\<lparr>apiKeyInput_value :=
         (case userApiKey s of None \<Rightarrow> [] | Some k \<Rightarrow> (if k = [] then [] else k)),
       apiKeyModal_hidden := False\<rparr>"

definition hideApiKeyModal :: "app_state \<Rightarrow> app_state" where
  "hideApiKeyModal s = s\<lparr>apiKeyModal_hidden := True\<rparr>"

definition updateUiForApiKey :: "app_state \<Rightarrow> app_state" where
  "updateUiForApiKey s = s\<lparr>improveButton_disabled := key_falsy (userApiKey s)\<rparr>"

definition saveApiKey :: "app_state \<Rightarrow> app_state" where
  "saveApiKey s =
     (let key = js_trim (apiKeyInput_value s) in
      updateUiForApiKey
        (if key \<noteq> [] then
           hideApiKeyModal
             (s\<lparr>userApiKey := Some key,
                localStorage := (localStorage s)(API_KEY_STORAGE_KEY \<mapsto> key),
                status_textContent := ustr ''API Key saved. You can now improve your prompts!''\<rparr>)
         else
           s\<lparr>userApiKey := None,
             localStorage := (localStorage s)(API_KEY_STORAGE_KEY := None),
             status_textContent := ustr ''API Key removed. Please set a key to continue.''\<rparr>))"

text \<open>
  \<open>initializeApp\<close> registers the event listeners (they are the functions of this theory;
  registering them changes nothing in the state kept here) and loads the key.
\<close>

definition initializeApp :: "app_state \<Rightarrow> app_state" where
  "initializeApp s =
     (let s1 = s\<lparr>userApiKey := localStorage s API_KEY_STORAGE_KEY\<rparr> in
      updateUiForApiKey
        (if key_falsy (userApiKey s1) then
           (showApiKeyModal s1)\<lparr>status_textContent := ustr ''Please set your Gemini API Key to begin.''\<rparr>
         else s1))"

section \<open>The improve handler\<close>

definition setLoadingState :: "bool \<Rightarrow> app_state \<Rightarrow> app_state" where
  "setLoadingState isLoading s =
     s\<lparr>improveButton_disabled := isLoading,
       improveButton_innerHTML :=
         (if isLoading then ustr ''<span>Improving...</span>'' else ustr ''Improve Prompt'')\<rparr>"

definition clearOutputs :: "app_state \<Rightarrow> app_state" where
  "clearOutputs s = s\<lparr>improvedPrompt_value := [], explanation_value := []\<rparr>"

definition prompt_template :: "js_string \<Rightarrow> js_string" where
  "prompt_template originalPrompt =
     ustr (''You are an expert prompt engineer. Your task is to rewrite the following '' @
           ''user-provided prompt to be more effective for a large language model. '' @
           ''Provide the improved prompt and a brief explanation of why your version is '' @
           ''better. The user's prompt is: '' @ [CHR 0x22])
     @ originalPrompt @ ustr [CHR 0x22]"

definition improve_request :: "js_string \<Rightarrow> js_string \<Rightarrow> request" where
  "improve_request apiKey originalPrompt =
     \<lparr>req_apiKey = apiKey,
      req_model = ustr ''gemini-2.5-pro'',
      req_text = prompt_template originalPrompt,
      req_responseMimeType = ustr ''application/json'',
      req_required = [ustr ''improvedPrompt'', ustr ''explanation'']\<rparr>"

text \<open>
  The handler is asynchronous with one suspension point, the \<open>await\<close> of the network
  call. Its first part runs up to there: it either returns, or has issued the request
  and is suspended.
\<close>

datatype improve_step = Returned app_state | Awaiting app_state

definition handleImproveClick_start :: "app_state \<Rightarrow> improve_step" where
  "handleImproveClick_start s =
     (case userApiKey s of
        None \<Rightarrow>
          Returned (showApiKeyModal
            (s\<lparr>status_textContent := ustr ''Please set your API key in the settings first.''\<rparr>))
      | Some apiKey \<Rightarrow>
          if apiKey = [] then
            Returned (showApiKeyModal
              (s\<lparr>status_textContent := ustr ''Please set your API key in the settings first.''\<rparr>))
          else
            (let originalPrompt = js_trim (originalPrompt_value s) in
             if originalPrompt = [] then
               Returned (s\<lparr>status_textContent := ustr ''Please enter a prompt first.''\<rparr>)
             else
               (let s1 = (clearOutputs (setLoadingState True s))
                           \<lparr>status_textContent := ustr ''Optimizing with AI...''\<rparr>
                in Awaiting (s1\<lparr>requests := requests s1 @ [improve_request apiKey originalPrompt]\<rparr>))))"

text \<open>The page a first part of the handler leaves, and whether it left a request in flight.\<close>

fun page_of :: "improve_step \<Rightarrow> app_state" where
  "page_of (Returned s) = s"
| "page_of (Awaiting s) = s"

fun in_flight :: "improve_step \<Rightarrow> bool" where
  "in_flight (Returned _) = False"
| "in_flight (Awaiting _) = True"

text \<open>
  How the awaited call ends: it rejects with an error carrying a message, or it resolves
  to a result whose \<open>text\<close> is a string or \<open>undefined\<close>.
\<close>

datatype api_outcome = Rejected js_string | Resolved "js_string option"

text \<open>
  \<open>JSON.parse\<close> converts its argument to a string first, so a \<open>text\<close> that is
  \<open>undefined\<close> is parsed as the text \<open>undefined\<close>.
\<close>

definition response_text :: "js_string option \<Rightarrow> js_string" where
  "response_text text = (case text of None \<Rightarrow> ustr ''undefined'' | Some t \<Rightarrow> t)"

text \<open>
  The rest of the \<open>try\<close> block, from the resumption on. \<open>Inl\<close> is the message of the error
  thrown; nothing has been written when that happens.
\<close>

definition improve_try :: "platform \<Rightarrow> api_outcome \<Rightarrow> app_state \<Rightarrow> js_string + app_state" where
  "improve_try P outcome s =
     (case outcome of
        Rejected message \<Rightarrow> Inl message
      | Resolved text \<Rightarrow>
          (case JSON_parse P (response_text text) of
             Inl message \<Rightarrow> Inl message
           | Inr parsedResponse \<Rightarrow>
               (case get_property P parsedResponse (ustr ''improvedPrompt'') of
                  Inl message \<Rightarrow> Inl message
                | Inr improvedPrompt \<Rightarrow>
                    if \<not> truthy improvedPrompt then
                      Inl (ustr ''Invalid response format from the AI.'')
                    else
                      (case get_property P parsedResponse (ustr ''explanation'') of
                         Inl message \<Rightarrow> Inl message
                       | Inr explanation \<Rightarrow>
                           if \<not> truthy explanation then
                             Inl (ustr ''Invalid response format from the AI.'')
                           else
                             Inr (s\<lparr>improvedPrompt_value := value_string P improvedPrompt,
                                    explanation_value := value_string P explanation,
                                    status_textContent := ustr ''Prompt improved successfully!''\<rparr>)))))"

text \<open>The \<open>catch\<close> block, for an error with the given message.\<close>

definition improve_catch :: "js_string \<Rightarrow> app_state \<Rightarrow> app_state" where
  "improve_catch message s =
     (let s1 = s\<lparr>console_errors := console_errors s @ [message]\<rparr>;
          s2 = (if js_includes message (ustr ''API key not valid'') then
                  showApiKeyModal
                    (s1\<lparr>status_textContent :=
                          ustr ''Your API Key is not valid. Please check it in settings.''\<rparr>)
                else
                  s1\<lparr>status_textContent :=
                        ustr ''An error occurred. Please check the console and try again.''\<rparr>)
      in s2\<lparr>explanation_value := ustr ''Error Details: '' @ message\<rparr>)"

text \<open>The second part of the handler: \<open>try\<close>, \<open>catch\<close>, \<open>finally\<close>, in the state at resumption.\<close>

definition handleImproveClick_resume :: "platform \<Rightarrow> api_outcome \<Rightarrow> app_state \<Rightarrow> app_state" where
  "handleImproveClick_resume P outcome s =
     setLoadingState False
       (case improve_try P outcome s of
          Inl message \<Rightarrow> improve_catch message s
        | Inr s' \<Rightarrow> s')"

text \<open>A whole run of the handler, when no other handler runs while it is suspended.\<close>

definition handleImproveClick :: "platform \<Rightarrow> api_outcome \<Rightarrow> app_state \<Rightarrow> app_state" where
  "handleImproveClick P outcome s =
     (case handleImproveClick_start s of
        Returned s' \<Rightarrow> s'
      | Awaiting s' \<Rightarrow> handleImproveClick_resume P outcome s')"

section \<open>Vocabulary of the properties\<close>

text \<open>
  A parsed response has a field when it is an object with a property of that name.
  Every other value, \<open>null\<close> included, has none.
\<close>

definition has_field :: "json \<Rightarrow> js_string \<Rightarrow> bool" where
  "has_field j name = (case j of JObject props \<Rightarrow> map_of props name \<noteq> None | _ \<Rightarrow> False)"

section \<open>Example inputs\<close>

definition quoted :: "string \<Rightarrow> string" where
  "quoted s = [CHR 0x22] @ s @ [CHR 0x22]"

definition example_key :: js_string where
  "example_key = ustr ''AIzaSy-demo-key''"

text \<open>A page with a saved key, a prompt typed in, and the outputs of an earlier failed request.\<close>

definition example_state :: app_state where
  "example_state =
     \<lparr>userApiKey = Some example_key,
      localStorage = [API_KEY_STORAGE_KEY \<mapsto> example_key],
      originalPrompt_value = ustr ''  write a poem about autumn '',
      improveButton_disabled = False,
      improveButton_innerHTML = ustr ''Improve Prompt'',
      status_textContent = ustr ''An error occurred. Please check the console and try again.'',
      improvedPrompt_value = [],
      explanation_value = ustr ''Error Details: Failed to fetch'',
      apiKeyModal_hidden = True,
      apiKeyInput_value = [],
      console_errors = [ustr ''Failed to fetch''],
      requests = []\<rparr>"

text \<open>The same page before any key was saved, and with a blank prompt.\<close>

definition example_state_no_key :: app_state where
  "example_state_no_key =
     example_state\<lparr>userApiKey := None, localStorage := Map.empty, improveButton_disabled := True\<rparr>"

definition example_state_blank_prompt :: app_state where
  "example_state_blank_prompt = example_state\<lparr>originalPrompt_value := ustr ''   ''\<rparr>"

text \<open>A page whose local storage holds the empty string under the key of the application.\<close>

definition example_state_empty_stored :: app_state where
  "example_state_empty_stored =
     example_state_no_key\<lparr>localStorage := [API_KEY_STORAGE_KEY \<mapsto> []]\<rparr>"

text \<open>The modal with a key typed in, surrounded by blanks, and with blanks only.\<close>

definition example_state_key_typed :: app_state where
  "example_state_key_typed =
     example_state_no_key\<lparr>apiKeyModal_hidden := False, apiKeyInput_value := ustr '' AIzaSy-demo-key  ''\<rparr>"

definition example_state_blank_typed :: app_state where
  "example_state_blank_typed =
     example_state\<lparr>apiKeyModal_hidden := False, apiKeyInput_value := ustr ''  ''\<rparr>"

text \<open>A platform whose parser knows one text; the engine messages are those of V8.\<close>

definition example_platform :: "js_string \<Rightarrow> json \<Rightarrow> platform" where
  "example_platform text v =
     \<lparr>JSON_parse = (\<lambda>t. if t = text then Inr v else Inl (ustr ''Unexpected end of JSON input'')),
      ToString = (\<lambda>v. ustr ''[object Object]''),
      null_read_message =
        (\<lambda>name. ustr ''Cannot read properties of null (reading '' @ name @ ustr '')'')\<rparr>"

definition example_text_ok :: js_string where
  "example_text_ok =
     ustr (''{'' @ quoted ''improvedPrompt'' @ '':'' @ quoted ''Write a four-line poem about autumn.''
           @ '','' @ quoted ''explanation'' @ '':'' @ quoted ''It fixes the length and the topic.''
           @ ''}'')"

definition example_json_ok :: json where
  "example_json_ok =
     JObject [(ustr ''improvedPrompt'', JString (ustr ''Write a four-line poem about autumn.'')),
              (ustr ''explanation'', JString (ustr ''It fixes the length and the topic.''))]"

definition example_text_missing :: js_string where
  "example_text_missing =
     ustr (''{'' @ quoted ''improvedPrompt'' @ '':'' @ quoted ''Write a four-line poem about autumn.''
           @ ''}'')"

definition example_json_missing :: json where
  "example_json_missing =
     JObject [(ustr ''improvedPrompt'', JString (ustr ''Write a four-line poem about autumn.''))]"

definition example_text_empty :: js_string where
  "example_text_empty =
     ustr (''{'' @ quoted ''improvedPrompt'' @ '':'' @ quoted []
           @ '','' @ quoted ''explanation'' @ '':'' @ quoted ''The prompt is already clear.''
           @ ''}'')"

definition example_json_empty :: json where
  "example_json_empty =
     JObject [(ustr ''improvedPrompt'', JString []),
              (ustr ''explanation'', JString (ustr ''The prompt is already clear.''))]"

definition example_invalid_key_message :: js_string where
  "example_invalid_key_message = ustr ''API key not valid. Please pass a valid API key.''"

definition example_network_message :: js_string where
  "example_network_message = ustr ''Failed to fetch''"

section \<open>Properties of the string operations\<close>

text \<open>\<open>js_includes\<close> holds exactly when the needle is a contiguous part of the string.\<close>

lemma js_includes_iff: "js_includes hay needle \<longleftrightarrow> (\<exists>before after. hay = before @ needle @ after)"
proof (induction hay)
  case Nil
  then show ?case by simp
next
  case (Cons c cs)
  have "(\<exists>before after. c # cs = before @ needle @ after)
        \<longleftrightarrow> prefix needle (c # cs) \<or> (\<exists>before after. cs = before @ needle @ after)"
  proof
    assume "\<exists>before after. c # cs = before @ needle @ after"
    then obtain before after where eq: "c # cs = before @ needle @ after" by blast
    show "prefix needle (c # cs) \<or> (\<exists>before after. cs = before @ needle @ after)"
    proof (cases before)
      case Nil
      with eq show ?thesis by (simp add: prefix_def)
    next
      case (Cons b bs)
      with eq have "cs = bs @ needle @ after" by simp
      then show ?thesis by blast
    qed
  next
    assume "prefix needle (c # cs) \<or> (\<exists>before after. cs = before @ needle @ after)"
    then show "\<exists>before after. c # cs = before @ needle @ after"
    proof
      assume "prefix needle (c # cs)"
      then obtain after where "c # cs = needle @ after" by (auto simp: prefix_def)
      then have "c # cs = [] @ needle @ after" by simp
      then show ?thesis by blast
    next
      assume "\<exists>before after. cs = before @ needle @ after"
      then obtain before after where "cs = before @ needle @ after" by blast
      then have "c # cs = (c # before) @ needle @ after" by simp
      then show ?thesis by blast
    qed
  qed
  with Cons.IH show ?case by simp
qed

text \<open>A string trims to the empty string exactly when it consists of white space only.\<close>

lemma js_trim_empty_iff: "js_trim s = [] \<longleftrightarrow> (\<forall>c \<in> set s. is_js_whitespace c)"
proof
  assume "js_trim s = []"
  then have all: "\<forall>c \<in> set (dropWhile is_js_whitespace s). is_js_whitespace c"
    by (simp add: js_trim_def)
  have "dropWhile is_js_whitespace s = []"
  proof (rule ccontr)
    assume ne: "dropWhile is_js_whitespace s \<noteq> []"
    then have "\<not> is_js_whitespace (hd (dropWhile is_js_whitespace s))"
      by (rule hd_dropWhile)
    moreover have "hd (dropWhile is_js_whitespace s) \<in> set (dropWhile is_js_whitespace s)"
      using ne by simp
    ultimately show False using all by blast
  qed
  then show "\<forall>c \<in> set s. is_js_whitespace c"
    by simp
next
  assume "\<forall>c \<in> set s. is_js_whitespace c"
  then have blank: "dropWhile is_js_whitespace s = []" by simp
  show "js_trim s = []" unfolding js_trim_def blank by simp
qed

text \<open>What is left after trimming neither starts nor ends with white space.\<close>

lemma last_dropWhile: "dropWhile P xs \<noteq> [] \<Longrightarrow> last (dropWhile P xs) = last xs"
  by (induction xs) (auto split: if_splits)

lemma js_trim_ends:
  assumes "js_trim s \<noteq> []"
  shows "\<not> is_js_whitespace (hd (js_trim s)) \<and> \<not> is_js_whitespace (last (js_trim s))"
proof -
  let ?d = "dropWhile is_js_whitespace s"
  let ?e = "dropWhile is_js_whitespace (rev ?d)"
  have e: "?e \<noteq> []" using assms by (simp add: js_trim_def)
  then have d: "?d \<noteq> []" by (cases "?d = []") simp_all
  have "hd (js_trim s) = last ?e"
    using e by (simp add: js_trim_def hd_rev)
  also have "\<dots> = last (rev ?d)"
    using e by (rule last_dropWhile)
  also have "\<dots> = hd ?d"
    using d by (simp add: last_rev)
  finally have first: "\<not> is_js_whitespace (hd (js_trim s))"
    using hd_dropWhile [OF d] by simp
  have "last (js_trim s) = hd ?e"
    using e by (simp add: js_trim_def last_rev)
  then have "\<not> is_js_whitespace (last (js_trim s))"
    using hd_dropWhile [OF e] by simp
  with first show ?thesis by simp
qed

section \<open>The two parts of the handler\<close>

lemma start_without_key:
  assumes "userApiKey s = None \<or> userApiKey s = Some []"
  shows "handleImproveClick_start s =
           Returned (s\<lparr>status_textContent := ustr ''Please set your API key in the settings first.'',
                       apiKeyInput_value := [], apiKeyModal_hidden := False\<rparr>)"
  using assms by (auto simp: handleImproveClick_start_def showApiKeyModal_def)

lemma start_blank_prompt:
  assumes "userApiKey s = Some k" and "k \<noteq> []" and "js_trim (originalPrompt_value s) = []"
  shows "handleImproveClick_start s =
           Returned (s\<lparr>status_textContent := ustr ''Please enter a prompt first.''\<rparr>)"
  using assms by (simp add: handleImproveClick_start_def)

lemma start_valid:
  assumes "userApiKey s = Some k" and "k \<noteq> []" and "js_trim (originalPrompt_value s) \<noteq> []"
  shows "handleImproveClick_start s =
           Awaiting (s\<lparr>improveButton_disabled := True,
                       improveButton_innerHTML := ustr ''<span>Improving...</span>'',
                       improvedPrompt_value := [],
                       explanation_value := [],
                       status_textContent := ustr ''Optimizing with AI...'',
                       requests := requests s @ [improve_request k (js_trim (originalPrompt_value s))]\<rparr>)"
  using assms
  by (simp add: handleImproveClick_start_def setLoadingState_def clearOutputs_def Let_def)

text \<open>Whether the \<open>try\<close> block throws, and with which message, does not depend on the page.\<close>

lemma improve_try_error_any_state:
  "improve_try P outcome s = Inl m \<Longrightarrow> improve_try P outcome t = Inl m"
  by (auto simp: improve_try_def split: api_outcome.splits sum.splits if_splits)

lemma marker_not_in_invalid_format:
  "\<not> js_includes (ustr ''Invalid response format from the AI.'') (ustr ''API key not valid'')"
  by code_simp

text \<open>The example inputs pass or fail the two checks of the handler as intended.\<close>

lemma example_key_nonempty: "example_key \<noteq> []"
  by (simp add: example_key_def ustr_def)

lemma example_prompt_trimmed:
  "js_trim (originalPrompt_value example_state) = ustr ''write a poem about autumn''"
  by (simp add: example_state_def js_trim_def is_js_whitespace_def ustr_def)

lemma example_blank_prompt_trimmed:
  "js_trim (originalPrompt_value example_state_blank_prompt) = []"
  by (simp add: example_state_blank_prompt_def js_trim_def is_js_whitespace_def ustr_def)

section \<open>Submitting without a key or without a prompt\<close>

text \<open>
  C1. Whenever the improve handler is invoked while no credential is held (the variable
  \<open>userApiKey\<close> is \<open>null\<close>; the empty string counts the same), it returns at once, before
  the suspension point: the log of network calls is unchanged, the status text asks for
  the key, and the credential modal is open. The whole run of the handler is that return.
\<close>

theorem improve_without_credential:
  assumes "userApiKey s = None \<or> userApiKey s = Some []"
  shows "handleImproveClick_start s = Returned (handleImproveClick P outcome s)
         \<and> requests (handleImproveClick P outcome s) = requests s
         \<and> status_textContent (handleImproveClick P outcome s) =
             ustr ''Please set your API key in the settings first.''
         \<and> \<not> apiKeyModal_hidden (handleImproveClick P outcome s)"
  using start_without_key [OF assms] by (simp add: handleImproveClick_def)

theorem improve_without_credential_witness:
  "userApiKey example_state_no_key = None
   \<and> handleImproveClick_start example_state_no_key =
       Returned (handleImproveClick (example_platform example_text_ok example_json_ok)
                   (Resolved (Some example_text_ok)) example_state_no_key)
   \<and> requests (handleImproveClick (example_platform example_text_ok example_json_ok)
                   (Resolved (Some example_text_ok)) example_state_no_key) = []
   \<and> \<not> apiKeyModal_hidden (handleImproveClick (example_platform example_text_ok example_json_ok)
                   (Resolved (Some example_text_ok)) example_state_no_key)"
proof -
  have h: "userApiKey example_state_no_key = None \<or> userApiKey example_state_no_key = Some []"
    by (simp add: example_state_no_key_def)
  have r: "requests example_state_no_key = []"
    by (simp add: example_state_no_key_def example_state_def)
  show ?thesis
    using improve_without_credential [OF h, of "example_platform example_text_ok example_json_ok"
        "Resolved (Some example_text_ok)"] r
    by (simp add: example_state_no_key_def)
qed

text \<open>
  C2. Whenever the improve handler is invoked with a credential held (a non-empty key, the
  only kind the handler accepts) and a prompt input that is empty or trims to empty, it
  returns before the suspension point, and the page afterwards is the page before with the
  status text replaced by the request for a prompt. Nothing else changes; in particular
  the log of network calls is the same.
\<close>

theorem improve_with_blank_prompt:
  assumes "userApiKey s = Some k" and "k \<noteq> []" and "js_trim (originalPrompt_value s) = []"
  shows "handleImproveClick_start s = Returned (handleImproveClick P outcome s)
         \<and> handleImproveClick P outcome s =
             s\<lparr>status_textContent := ustr ''Please enter a prompt first.''\<rparr>
         \<and> requests (handleImproveClick P outcome s) = requests s"
  using start_blank_prompt [OF assms] by (simp add: handleImproveClick_def)

theorem improve_with_blank_prompt_witness:
  "userApiKey example_state_blank_prompt = Some example_key
   \<and> example_key \<noteq> []
   \<and> js_trim (originalPrompt_value example_state_blank_prompt) = []
   \<and> handleImproveClick (example_platform example_text_ok example_json_ok)
        (Resolved (Some example_text_ok)) example_state_blank_prompt =
       example_state_blank_prompt\<lparr>status_textContent := ustr ''Please enter a prompt first.''\<rparr>
   \<and> requests (handleImproveClick (example_platform example_text_ok example_json_ok)
        (Resolved (Some example_text_ok)) example_state_blank_prompt) = []"
proof -
  have k: "userApiKey example_state_blank_prompt = Some example_key"
    by (simp add: example_state_blank_prompt_def example_state_def)
  have r: "requests example_state_blank_prompt = []"
    by (simp add: example_state_blank_prompt_def example_state_def)
  show ?thesis
    using improve_with_blank_prompt [OF k example_key_nonempty example_blank_prompt_trimmed,
        of "example_platform example_text_ok example_json_ok" "Resolved (Some example_text_ok)"]
      k example_key_nonempty example_blank_prompt_trimmed r
    by simp
qed

section \<open>Saving and loading the key\<close>

text \<open>
  C8. The save operation trims the content of the key input first. When the trimmed key
  is not empty it becomes the in-memory key, it is stored under the fixed local-storage
  key, and the modal is hidden. When the input is empty or white space only (by
  \<open>js_trim_empty_iff\<close>, exactly when it trims to the empty string), the stored entry is
  removed, the in-memory key becomes \<open>null\<close>, and the modal stays as it was (open, when
  the operation was started from it).
\<close>

theorem saveApiKey_trims_then_stores_or_removes:
  "(if js_trim (apiKeyInput_value s) \<noteq> [] then
      userApiKey (saveApiKey s) = Some (js_trim (apiKeyInput_value s))
      \<and> localStorage (saveApiKey s) =
          (localStorage s)(API_KEY_STORAGE_KEY \<mapsto> js_trim (apiKeyInput_value s))
      \<and> apiKeyModal_hidden (saveApiKey s)
    else
      userApiKey (saveApiKey s) = None
      \<and> localStorage (saveApiKey s) = (localStorage s)(API_KEY_STORAGE_KEY := None)
      \<and> apiKeyModal_hidden (saveApiKey s) = apiKeyModal_hidden s)"
  by (simp add: saveApiKey_def updateUiForApiKey_def hideApiKeyModal_def Let_def)

theorem saveApiKey_trims_then_stores_or_removes_witness:
  "js_trim (apiKeyInput_value example_state_key_typed) = example_key
   \<and> userApiKey (saveApiKey example_state_key_typed) = Some example_key
   \<and> localStorage (saveApiKey example_state_key_typed) API_KEY_STORAGE_KEY = Some example_key
   \<and> apiKeyModal_hidden (saveApiKey example_state_key_typed)
   \<and> js_trim (apiKeyInput_value example_state_blank_typed) = []
   \<and> userApiKey (saveApiKey example_state_blank_typed) = None
   \<and> localStorage (saveApiKey example_state_blank_typed) API_KEY_STORAGE_KEY = None
   \<and> \<not> apiKeyModal_hidden (saveApiKey example_state_blank_typed)"
proof -
  have a: "js_trim (apiKeyInput_value example_state_key_typed) = example_key"
    by (simp add: example_state_key_typed_def example_key_def js_trim_def is_js_whitespace_def
        ustr_def)
  have b: "js_trim (apiKeyInput_value example_state_blank_typed) = []"
    by (simp add: example_state_blank_typed_def js_trim_def is_js_whitespace_def ustr_def)
  have c: "\<not> apiKeyModal_hidden example_state_blank_typed"
    by (simp add: example_state_blank_typed_def)
  show ?thesis
    using saveApiKey_trims_then_stores_or_removes [of example_state_key_typed]
      saveApiKey_trims_then_stores_or_removes [of example_state_blank_typed]
      a b c example_key_nonempty
    by simp
qed

text \<open>
  C10, as the specification states it, fails on a page whose local storage already holds
  the empty string under the key: after initialization the in-memory key is that string,
  which is not \<open>null\<close>, and the trigger control is disabled.
\<close>

theorem initializeApp_empty_stored_key_counterexample:
  "localStorage (initializeApp example_state_empty_stored) API_KEY_STORAGE_KEY = Some []
   \<and> userApiKey (initializeApp example_state_empty_stored) = Some []
   \<and> userApiKey (initializeApp example_state_empty_stored) \<noteq> None
   \<and> improveButton_disabled (initializeApp example_state_empty_stored)"
  by (simp add: initializeApp_def updateUiForApiKey_def showApiKeyModal_def key_falsy_def
      example_state_empty_stored_def Let_def)

text \<open>
  C10, amended. After initialization and after every save operation the in-memory key is
  exactly what local storage holds under the fixed key (both absent, or both present and
  equal), and the trigger control is enabled if and only if that key is present and not
  the empty string. After a save operation a key that is present is never empty, so
  there the control is enabled if and only if the key is present.
\<close>

theorem key_agrees_with_storage:
  "userApiKey (initializeApp s) = localStorage (initializeApp s) API_KEY_STORAGE_KEY
   \<and> (\<not> improveButton_disabled (initializeApp s)
        \<longleftrightarrow> userApiKey (initializeApp s) \<noteq> None \<and> userApiKey (initializeApp s) \<noteq> Some [])
   \<and> userApiKey (saveApiKey s) = localStorage (saveApiKey s) API_KEY_STORAGE_KEY
   \<and> (\<not> improveButton_disabled (saveApiKey s)
        \<longleftrightarrow> userApiKey (saveApiKey s) \<noteq> None \<and> userApiKey (saveApiKey s) \<noteq> Some [])
   \<and> (\<not> improveButton_disabled (saveApiKey s) \<longleftrightarrow> userApiKey (saveApiKey s) \<noteq> None)"
proof -
  have init: "userApiKey (initializeApp s) = localStorage (initializeApp s) API_KEY_STORAGE_KEY"
    by (simp add: initializeApp_def updateUiForApiKey_def showApiKeyModal_def Let_def)
  have init_button: "\<not> improveButton_disabled (initializeApp s)
        \<longleftrightarrow> userApiKey (initializeApp s) \<noteq> None \<and> userApiKey (initializeApp s) \<noteq> Some []"
    by (auto simp: initializeApp_def updateUiForApiKey_def showApiKeyModal_def key_falsy_def
        Let_def split: option.splits)
  have save: "userApiKey (saveApiKey s) = localStorage (saveApiKey s) API_KEY_STORAGE_KEY"
    by (simp add: saveApiKey_def updateUiForApiKey_def hideApiKeyModal_def Let_def)
  have save_button: "\<not> improveButton_disabled (saveApiKey s) \<longleftrightarrow> userApiKey (saveApiKey s) \<noteq> None"
    by (simp add: saveApiKey_def updateUiForApiKey_def hideApiKeyModal_def key_falsy_def Let_def)
  have save_nonempty: "userApiKey (saveApiKey s) \<noteq> Some []"
    by (simp add: saveApiKey_def updateUiForApiKey_def hideApiKeyModal_def Let_def)
  from init init_button save save_button save_nonempty show ?thesis by simp
qed

theorem key_agrees_with_storage_witness:
  "userApiKey (initializeApp example_state) = Some example_key
   \<and> localStorage (initializeApp example_state) API_KEY_STORAGE_KEY = Some example_key
   \<and> \<not> improveButton_disabled (initializeApp example_state)
   \<and> userApiKey (saveApiKey example_state_blank_typed) = None
   \<and> localStorage (saveApiKey example_state_blank_typed) API_KEY_STORAGE_KEY = None
   \<and> improveButton_disabled (saveApiKey example_state_blank_typed)"
proof -
  have a: "localStorage (initializeApp example_state) API_KEY_STORAGE_KEY = Some example_key"
    by (simp add: initializeApp_def updateUiForApiKey_def showApiKeyModal_def Let_def
        example_state_def)
  have b: "js_trim (apiKeyInput_value example_state_blank_typed) = []"
    by (simp add: example_state_blank_typed_def js_trim_def is_js_whitespace_def ustr_def)
  have c: "localStorage (saveApiKey example_state_blank_typed) API_KEY_STORAGE_KEY = None"
    by (simp add: saveApiKey_def updateUiForApiKey_def Let_def b)
  show ?thesis
    using key_agrees_with_storage [of example_state] key_agrees_with_storage [of example_state_blank_typed]
      a c example_key_nonempty
    by auto
qed

section \<open>Runs that pass both checks\<close>

text \<open>
  A run in which the \<open>try\<close> block throws an error with message \<open>m\<close>: what the page holds
  when the handler has finished.
\<close>

lemma failed_run:
  assumes "userApiKey s = Some k" and "k \<noteq> []" and "js_trim (originalPrompt_value s) \<noteq> []"
    and "improve_try P outcome s = Inl m"
  shows "improvedPrompt_value (handleImproveClick P outcome s) = []"
    and "explanation_value (handleImproveClick P outcome s) = ustr ''Error Details: '' @ m"
    and "status_textContent (handleImproveClick P outcome s) =
           (if js_includes m (ustr ''API key not valid'')
            then ustr ''Your API Key is not valid. Please check it in settings.''
            else ustr ''An error occurred. Please check the console and try again.'')"
    and "apiKeyModal_hidden (handleImproveClick P outcome s) =
           (if js_includes m (ustr ''API key not valid'') then False else apiKeyModal_hidden s)"
    and "\<not> improveButton_disabled (handleImproveClick P outcome s)"
    and "requests (handleImproveClick P outcome s) =
           requests s @ [improve_request k (js_trim (originalPrompt_value s))]"
proof -
  let ?s1 = "s\<lparr>improveButton_disabled := True,
               improveButton_innerHTML := ustr ''<span>Improving...</span>'',
               improvedPrompt_value := [],
               explanation_value := [],
               status_textContent := ustr ''Optimizing with AI...'',
               requests := requests s @ [improve_request k (js_trim (originalPrompt_value s))]\<rparr>"
  have thrown: "improve_try P outcome ?s1 = Inl m"
    using assms(4) by (rule improve_try_error_any_state)
  have run: "handleImproveClick P outcome s = setLoadingState False (improve_catch m ?s1)"
    using start_valid [OF assms(1-3)] thrown
    by (simp add: handleImproveClick_def handleImproveClick_resume_def)
  show "improvedPrompt_value (handleImproveClick P outcome s) = []"
    by (simp add: run setLoadingState_def improve_catch_def showApiKeyModal_def Let_def)
  show "explanation_value (handleImproveClick P outcome s) = ustr ''Error Details: '' @ m"
    by (simp add: run setLoadingState_def improve_catch_def showApiKeyModal_def Let_def)
  show "status_textContent (handleImproveClick P outcome s) =
           (if js_includes m (ustr ''API key not valid'')
            then ustr ''Your API Key is not valid. Please check it in settings.''
            else ustr ''An error occurred. Please check the console and try again.'')"
    by (simp add: run setLoadingState_def improve_catch_def showApiKeyModal_def Let_def)
  show "apiKeyModal_hidden (handleImproveClick P outcome s) =
           (if js_includes m (ustr ''API key not valid'') then False else apiKeyModal_hidden s)"
    by (simp add: run setLoadingState_def improve_catch_def showApiKeyModal_def Let_def)
  show "\<not> improveButton_disabled (handleImproveClick P outcome s)"
    by (simp add: run setLoadingState_def)
  show "requests (handleImproveClick P outcome s) =
           requests s @ [improve_request k (js_trim (originalPrompt_value s))]"
    by (simp add: run setLoadingState_def improve_catch_def showApiKeyModal_def Let_def)
qed

text \<open>A run in which both reads give truthy values: the \<open>try\<close> block completes.\<close>

lemma successful_run:
  assumes "userApiKey s = Some k" and "k \<noteq> []" and "js_trim (originalPrompt_value s) \<noteq> []"
    and "JSON_parse P (response_text text) = Inr j"
    and "get_property P j (ustr ''improvedPrompt'') = Inr a" and "truthy a"
    and "get_property P j (ustr ''explanation'') = Inr b" and "truthy b"
  shows "improvedPrompt_value (handleImproveClick P (Resolved text) s) = value_string P a"
    and "explanation_value (handleImproveClick P (Resolved text) s) = value_string P b"
    and "status_textContent (handleImproveClick P (Resolved text) s) =
           ustr ''Prompt improved successfully!''"
    and "\<not> improveButton_disabled (handleImproveClick P (Resolved text) s)"
  using start_valid [OF assms(1-3)] assms(4-8)
  by (simp_all add: handleImproveClick_def handleImproveClick_resume_def improve_try_def
      setLoadingState_def)

text \<open>A response with a falsy or absent field makes the \<open>try\<close> block throw.\<close>

lemma improve_try_invalid_format:
  assumes "JSON_parse P (response_text text) = Inr j" and "j \<noteq> JNull"
    and "\<not> truthy (case get_property P j (ustr ''improvedPrompt'') of Inr v \<Rightarrow> v | Inl _ \<Rightarrow> None)
         \<or> \<not> truthy (case get_property P j (ustr ''explanation'') of Inr v \<Rightarrow> v | Inl _ \<Rightarrow> None)"
  shows "improve_try P (Resolved text) s = Inl (ustr ''Invalid response format from the AI.'')"
  using assms
  by (cases j) (auto simp: improve_try_def get_property_def)

lemma improve_try_null:
  assumes "JSON_parse P (response_text text) = Inr JNull"
  shows "improve_try P (Resolved text) s = Inl (null_read_message P (ustr ''improvedPrompt''))"
  using assms by (simp add: improve_try_def get_property_def)

lemma example_parse:
  "JSON_parse (example_platform t v) (response_text (Some t)) = Inr v"
  by (simp add: example_platform_def response_text_def)

lemma field_names_differ: "ustr ''improvedPrompt'' \<noteq> ustr ''explanation''"
  by (simp add: ustr_def)

section \<open>Responses and failures\<close>

text \<open>
  C5, as the specification states it, fails for a response that has both required string
  fields with the improved prompt being the empty string: the handler reports an error,
  and the explanation field does not receive the explanation of the response.
\<close>

theorem empty_string_field_not_populated_counterexample:
  "has_field example_json_empty (ustr ''improvedPrompt'')
   \<and> has_field example_json_empty (ustr ''explanation'')
   \<and> status_textContent
        (handleImproveClick (example_platform example_text_empty example_json_empty)
           (Resolved (Some example_text_empty)) example_state)
       = ustr ''An error occurred. Please check the console and try again.''
   \<and> explanation_value
        (handleImproveClick (example_platform example_text_empty example_json_empty)
           (Resolved (Some example_text_empty)) example_state)
       \<noteq> ustr ''The prompt is already clear.''"
proof -
  let ?P = "example_platform example_text_empty example_json_empty"
  have k: "userApiKey example_state = Some example_key"
    by (simp add: example_state_def)
  have p: "js_trim (originalPrompt_value example_state) \<noteq> []"
    by (simp add: example_prompt_trimmed ustr_def)
  have thrown: "improve_try ?P (Resolved (Some example_text_empty)) example_state =
                  Inl (ustr ''Invalid response format from the AI.'')"
    by (rule improve_try_invalid_format [where j = example_json_empty])
       (simp_all add: example_parse, simp_all add: example_json_empty_def get_property_def)
  have fields: "has_field example_json_empty (ustr ''improvedPrompt'')"
    "has_field example_json_empty (ustr ''explanation'')"
    by (simp_all add: example_json_empty_def has_field_def ustr_def)
  have differ: "ustr ''Error Details: '' @ ustr ''Invalid response format from the AI.''
                  \<noteq> ustr ''The prompt is already clear.''"
    by (simp add: ustr_def)
  show ?thesis
    using failed_run(2,3) [OF k example_key_nonempty p thrown] fields differ
      marker_not_in_invalid_format
    by simp
qed

text \<open>
  C5, amended. For every response that resolves to a text whose parsed value is an object
  with both required fields holding non-empty strings, a run that passed both checks ends
  with exactly those two strings in the improved-prompt and explanation fields, the
  success status, and the trigger control enabled again. Both fields were emptied before
  the request was issued and are overwritten as a whole, so nothing of an earlier error
  text is left.
\<close>

theorem well_formed_response_populates_outputs:
  assumes "userApiKey s = Some k" and "k \<noteq> []" and "js_trim (originalPrompt_value s) \<noteq> []"
    and "JSON_parse P (response_text text) = Inr (JObject props)"
    and "map_of props (ustr ''improvedPrompt'') = Some (JString a)" and "a \<noteq> []"
    and "map_of props (ustr ''explanation'') = Some (JString b)" and "b \<noteq> []"
  shows "(case handleImproveClick_start s of
            Awaiting s1 \<Rightarrow> improvedPrompt_value s1 = [] \<and> explanation_value s1 = []
          | Returned _ \<Rightarrow> False)
         \<and> improvedPrompt_value (handleImproveClick P (Resolved text) s) = a
         \<and> explanation_value (handleImproveClick P (Resolved text) s) = b
         \<and> status_textContent (handleImproveClick P (Resolved text) s) =
             ustr ''Prompt improved successfully!''
         \<and> \<not> improveButton_disabled (handleImproveClick P (Resolved text) s)"
proof -
  have ga: "get_property P (JObject props) (ustr ''improvedPrompt'') = Inr (Some (JString a))"
    and gb: "get_property P (JObject props) (ustr ''explanation'') = Inr (Some (JString b))"
    using assms(5,7) by (simp_all add: get_property_def)
  have ta: "truthy (Some (JString a))" and tb: "truthy (Some (JString b))"
    using assms(6,8) by simp_all
  note run = successful_run [OF assms(1-4) ga ta gb tb]
  have cleared: "(case handleImproveClick_start s of
            Awaiting s1 \<Rightarrow> improvedPrompt_value s1 = [] \<and> explanation_value s1 = []
          | Returned _ \<Rightarrow> False)"
    by (simp add: start_valid [OF assms(1-3)])
  from cleared run show ?thesis by (simp add: value_string_def)
qed

theorem well_formed_response_populates_outputs_witness:
  "userApiKey example_state = Some example_key
   \<and> example_key \<noteq> []
   \<and> js_trim (originalPrompt_value example_state) \<noteq> []
   \<and> JSON_parse (example_platform example_text_ok example_json_ok)
        (response_text (Some example_text_ok)) = Inr example_json_ok
   \<and> explanation_value example_state = ustr ''Error Details: Failed to fetch''
   \<and> improvedPrompt_value
        (handleImproveClick (example_platform example_text_ok example_json_ok)
           (Resolved (Some example_text_ok)) example_state)
       = ustr ''Write a four-line poem about autumn.''
   \<and> explanation_value
        (handleImproveClick (example_platform example_text_ok example_json_ok)
           (Resolved (Some example_text_ok)) example_state)
       = ustr ''It fixes the length and the topic.''
   \<and> status_textContent
        (handleImproveClick (example_platform example_text_ok example_json_ok)
           (Resolved (Some example_text_ok)) example_state)
       = ustr ''Prompt improved successfully!''"
proof -
  let ?P = "example_platform example_text_ok example_json_ok"
  let ?props = "[(ustr ''improvedPrompt'', JString (ustr ''Write a four-line poem about autumn.'')),
                 (ustr ''explanation'', JString (ustr ''It fixes the length and the topic.''))]"
  have k: "userApiKey example_state = Some example_key"
    by (simp add: example_state_def)
  have p: "js_trim (originalPrompt_value example_state) \<noteq> []"
    by (simp add: example_prompt_trimmed ustr_def)
  have parsed: "JSON_parse ?P (response_text (Some example_text_ok)) = Inr (JObject ?props)"
    by (simp add: example_parse example_json_ok_def)
  have a: "map_of ?props (ustr ''improvedPrompt'') =
             Some (JString (ustr ''Write a four-line poem about autumn.''))"
    by simp
  have b: "map_of ?props (ustr ''explanation'') =
             Some (JString (ustr ''It fixes the length and the topic.''))"
    using field_names_differ by simp
  have na: "ustr ''Write a four-line poem about autumn.'' \<noteq> []"
    and nb: "ustr ''It fixes the length and the topic.'' \<noteq> []"
    by (simp_all add: ustr_def)
  have old: "explanation_value example_state = ustr ''Error Details: Failed to fetch''"
    by (simp add: example_state_def)
  show ?thesis
    using well_formed_response_populates_outputs [OF k example_key_nonempty p parsed a na b nb]
      k example_key_nonempty p example_parse [of example_text_ok example_json_ok] old
    by simp
qed

text \<open>
  C3, as the specification states it, fails: a response without the explanation field is
  treated as an error, but the explanation output does not stay empty. The \<open>catch\<close> block
  writes the detail of the error into it.
\<close>

theorem missing_field_explanation_not_empty_counterexample:
  "\<not> has_field example_json_missing (ustr ''explanation'')
   \<and> explanation_value
        (handleImproveClick (example_platform example_text_missing example_json_missing)
           (Resolved (Some example_text_missing)) example_state)
       = ustr ''Error Details: Invalid response format from the AI.''
   \<and> explanation_value
        (handleImproveClick (example_platform example_text_missing example_json_missing)
           (Resolved (Some example_text_missing)) example_state)
       \<noteq> []"
proof -
  let ?P = "example_platform example_text_missing example_json_missing"
  have k: "userApiKey example_state = Some example_key"
    by (simp add: example_state_def)
  have p: "js_trim (originalPrompt_value example_state) \<noteq> []"
    by (simp add: example_prompt_trimmed ustr_def)
  have missing: "\<not> has_field example_json_missing (ustr ''explanation'')"
    using field_names_differ by (simp add: example_json_missing_def has_field_def)
  have thrown: "improve_try ?P (Resolved (Some example_text_missing)) example_state =
                  Inl (ustr ''Invalid response format from the AI.'')"
    using field_names_differ
    by (simp add: improve_try_def example_parse example_json_missing_def get_property_def)
  show ?thesis
    using failed_run(2) [OF k example_key_nonempty p thrown] missing
    by (simp add: ustr_def)
qed

text \<open>
  C3, amended. For every response that resolves to a text whose parsed value lacks the
  \<open>improvedPrompt\<close> field or the \<open>explanation\<close> field, a run that passed both checks treats
  the response as an error: the \<open>try\<close> block throws, the improved-prompt field is left
  empty, the status is never the success status, and the explanation field receives
  \<open>Error Details:\<close> followed by the message of the error. The message is \<open>Invalid response
  format from the AI.\<close> and the status the generic error status, except when the parsed
  value is \<open>null\<close>, where the message is the one of the engine for reading a property of
  \<open>null\<close>.
\<close>

theorem response_missing_field_is_error:
  assumes "userApiKey s = Some k" and "k \<noteq> []" and "js_trim (originalPrompt_value s) \<noteq> []"
    and "JSON_parse P (response_text text) = Inr j"
    and "\<not> has_field j (ustr ''improvedPrompt'') \<or> \<not> has_field j (ustr ''explanation'')"
  shows "improve_try P (Resolved text) s =
           Inl (if j = JNull then null_read_message P (ustr ''improvedPrompt'')
                else ustr ''Invalid response format from the AI.'')
         \<and> improvedPrompt_value (handleImproveClick P (Resolved text) s) = []
         \<and> explanation_value (handleImproveClick P (Resolved text) s) =
             ustr ''Error Details: '' @
               (if j = JNull then null_read_message P (ustr ''improvedPrompt'')
                else ustr ''Invalid response format from the AI.'')
         \<and> status_textContent (handleImproveClick P (Resolved text) s) =
             (if j = JNull \<and> js_includes (null_read_message P (ustr ''improvedPrompt''))
                                (ustr ''API key not valid'')
              then ustr ''Your API Key is not valid. Please check it in settings.''
              else ustr ''An error occurred. Please check the console and try again.'')
         \<and> status_textContent (handleImproveClick P (Resolved text) s) \<noteq>
             ustr ''Prompt improved successfully!''"
proof -
  let ?m = "if j = JNull then null_read_message P (ustr ''improvedPrompt'')
            else ustr ''Invalid response format from the AI.''"
  have thrown: "improve_try P (Resolved text) s = Inl ?m"
  proof (cases "j = JNull")
    case True
    then show ?thesis using assms(4) by (simp add: improve_try_null)
  next
    case False
    have "\<not> truthy (case get_property P j (ustr ''improvedPrompt'') of Inr v \<Rightarrow> v | Inl _ \<Rightarrow> None)
          \<or> \<not> truthy (case get_property P j (ustr ''explanation'') of Inr v \<Rightarrow> v | Inl _ \<Rightarrow> None)"
      using assms(5) by (cases j) (auto simp: get_property_def has_field_def)
    with False assms(4) show ?thesis by (simp add: improve_try_invalid_format)
  qed
  note run = failed_run(1-3) [OF assms(1-3) thrown]
  have success_differs:
    "ustr ''Your API Key is not valid. Please check it in settings.'' \<noteq>
       ustr ''Prompt improved successfully!''"
    "ustr ''An error occurred. Please check the console and try again.'' \<noteq>
       ustr ''Prompt improved successfully!''"
    by (simp_all add: ustr_def)
  show ?thesis
    using thrown run success_differs marker_not_in_invalid_format
    by (cases "j = JNull") simp_all
qed

theorem response_missing_field_is_error_witness:
  "userApiKey example_state = Some example_key
   \<and> example_key \<noteq> []
   \<and> js_trim (originalPrompt_value example_state) \<noteq> []
   \<and> JSON_parse (example_platform example_text_missing example_json_missing)
        (response_text (Some example_text_missing)) = Inr example_json_missing
   \<and> \<not> has_field example_json_missing (ustr ''explanation'')
   \<and> improvedPrompt_value
        (handleImproveClick (example_platform example_text_missing example_json_missing)
           (Resolved (Some example_text_missing)) example_state) = []
   \<and> explanation_value
        (handleImproveClick (example_platform example_text_missing example_json_missing)
           (Resolved (Some example_text_missing)) example_state)
       = ustr ''Error Details: '' @ ustr ''Invalid response format from the AI.''
   \<and> status_textContent
        (handleImproveClick (example_platform example_text_missing example_json_missing)
           (Resolved (Some example_text_missing)) example_state)
       = ustr ''An error occurred. Please check the console and try again.''"
proof -
  let ?P = "example_platform example_text_missing example_json_missing"
  have k: "userApiKey example_state = Some example_key"
    by (simp add: example_state_def)
  have p: "js_trim (originalPrompt_value example_state) \<noteq> []"
    by (simp add: example_prompt_trimmed ustr_def)
  have parsed: "JSON_parse ?P (response_text (Some example_text_missing)) = Inr example_json_missing"
    by (rule example_parse)
  have missing: "\<not> has_field example_json_missing (ustr ''explanation'')"
    using field_names_differ by (simp add: example_json_missing_def has_field_def)
  then have either: "\<not> has_field example_json_missing (ustr ''improvedPrompt'')
                     \<or> \<not> has_field example_json_missing (ustr ''explanation'')"
    by simp
  have not_null: "example_json_missing \<noteq> JNull"
    by (simp add: example_json_missing_def)
  show ?thesis
    using response_missing_field_is_error [OF k example_key_nonempty p parsed either]
      k example_key_nonempty p parsed missing not_null
    by simp
qed

text \<open>
  C4, as the specification states it, fails: after a failure whose message contains the
  marker, the explanation output is not empty. It holds the detail of the error.
\<close>

theorem invalid_key_explanation_not_empty_counterexample:
  "js_includes example_invalid_key_message (ustr ''API key not valid'')
   \<and> explanation_value
        (handleImproveClick (example_platform example_text_ok example_json_ok)
           (Rejected example_invalid_key_message) example_state)
       = ustr ''Error Details: API key not valid. Please pass a valid API key.''
   \<and> explanation_value
        (handleImproveClick (example_platform example_text_ok example_json_ok)
           (Rejected example_invalid_key_message) example_state)
       \<noteq> []"
proof -
  let ?P = "example_platform example_text_ok example_json_ok"
  have k: "userApiKey example_state = Some example_key"
    by (simp add: example_state_def)
  have p: "js_trim (originalPrompt_value example_state) \<noteq> []"
    by (simp add: example_prompt_trimmed ustr_def)
  have thrown: "improve_try ?P (Rejected example_invalid_key_message) example_state =
                  Inl example_invalid_key_message"
    by (simp add: improve_try_def)
  have marker: "js_includes example_invalid_key_message (ustr ''API key not valid'')"
    unfolding example_invalid_key_message_def by code_simp
  show ?thesis
    using failed_run(2) [OF k example_key_nonempty p thrown] marker
    by (simp add: example_invalid_key_message_def ustr_def)
qed

text \<open>
  C4, amended. For every run that passed both checks and in which the \<open>try\<close> block throws an
  error whose message contains \<open>API key not valid\<close>, the handler sets the invalid-key
  status, shows the credential modal again, leaves the improved-prompt field empty, and
  writes \<open>Error Details:\<close> followed by the message into the explanation field.
\<close>

theorem invalid_key_failure_reopens_modal:
  assumes "userApiKey s = Some k" and "k \<noteq> []" and "js_trim (originalPrompt_value s) \<noteq> []"
    and "improve_try P outcome s = Inl m"
    and "js_includes m (ustr ''API key not valid'')"
  shows "status_textContent (handleImproveClick P outcome s) =
           ustr ''Your API Key is not valid. Please check it in settings.''
         \<and> \<not> apiKeyModal_hidden (handleImproveClick P outcome s)
         \<and> improvedPrompt_value (handleImproveClick P outcome s) = []
         \<and> explanation_value (handleImproveClick P outcome s) = ustr ''Error Details: '' @ m"
  using failed_run(1-4) [OF assms(1-4)] assms(5) by simp

theorem invalid_key_failure_reopens_modal_witness:
  "userApiKey example_state = Some example_key
   \<and> example_key \<noteq> []
   \<and> js_trim (originalPrompt_value example_state) \<noteq> []
   \<and> improve_try (example_platform example_text_ok example_json_ok)
        (Rejected example_invalid_key_message) example_state = Inl example_invalid_key_message
   \<and> js_includes example_invalid_key_message (ustr ''API key not valid'')
   \<and> apiKeyModal_hidden example_state
   \<and> \<not> apiKeyModal_hidden
          (handleImproveClick (example_platform example_text_ok example_json_ok)
             (Rejected example_invalid_key_message) example_state)
   \<and> status_textContent
        (handleImproveClick (example_platform example_text_ok example_json_ok)
           (Rejected example_invalid_key_message) example_state)
       = ustr ''Your API Key is not valid. Please check it in settings.''
   \<and> improvedPrompt_value
        (handleImproveClick (example_platform example_text_ok example_json_ok)
           (Rejected example_invalid_key_message) example_state) = []
   \<and> explanation_value
        (handleImproveClick (example_platform example_text_ok example_json_ok)
           (Rejected example_invalid_key_message) example_state)
       = ustr ''Error Details: '' @ example_invalid_key_message"
proof -
  let ?P = "example_platform example_text_ok example_json_ok"
  have k: "userApiKey example_state = Some example_key"
    by (simp add: example_state_def)
  have p: "js_trim (originalPrompt_value example_state) \<noteq> []"
    by (simp add: example_prompt_trimmed ustr_def)
  have thrown: "improve_try ?P (Rejected example_invalid_key_message) example_state =
                  Inl example_invalid_key_message"
    by (simp add: improve_try_def)
  have marker: "js_includes example_invalid_key_message (ustr ''API key not valid'')"
    unfolding example_invalid_key_message_def by code_simp
  have hidden: "apiKeyModal_hidden example_state"
    by (simp add: example_state_def)
  show ?thesis
    using invalid_key_failure_reopens_modal [OF k example_key_nonempty p thrown marker]
      k example_key_nonempty p thrown marker hidden
    by simp
qed

text \<open>
  C6. For every run that passed both checks and in which the \<open>try\<close> block throws an error
  whose message does not contain \<open>API key not valid\<close>, the handler sets the generic error
  status and writes the message of the error, after the prefix \<open>Error Details:\<close>, into the
  explanation field.
\<close>

theorem other_failure_reports_detail:
  assumes "userApiKey s = Some k" and "k \<noteq> []" and "js_trim (originalPrompt_value s) \<noteq> []"
    and "improve_try P outcome s = Inl m"
    and "\<not> js_includes m (ustr ''API key not valid'')"
  shows "status_textContent (handleImproveClick P outcome s) =
           ustr ''An error occurred. Please check the console and try again.''
         \<and> explanation_value (handleImproveClick P outcome s) = ustr ''Error Details: '' @ m"
  using failed_run(2,3) [OF assms(1-4)] assms(5) by simp

theorem other_failure_reports_detail_witness:
  "userApiKey example_state = Some example_key
   \<and> example_key \<noteq> []
   \<and> js_trim (originalPrompt_value example_state) \<noteq> []
   \<and> improve_try (example_platform example_text_ok example_json_ok)
        (Rejected example_network_message) example_state = Inl example_network_message
   \<and> \<not> js_includes example_network_message (ustr ''API key not valid'')
   \<and> status_textContent
        (handleImproveClick (example_platform example_text_ok example_json_ok)
           (Rejected example_network_message) example_state)
       = ustr ''An error occurred. Please check the console and try again.''
   \<and> explanation_value
        (handleImproveClick (example_platform example_text_ok example_json_ok)
           (Rejected example_network_message) example_state)
       = ustr ''Error Details: '' @ example_network_message"
proof -
  let ?P = "example_platform example_text_ok example_json_ok"
  have k: "userApiKey example_state = Some example_key"
    by (simp add: example_state_def)
  have p: "js_trim (originalPrompt_value example_state) \<noteq> []"
    by (simp add: example_prompt_trimmed ustr_def)
  have thrown: "improve_try ?P (Rejected example_network_message) example_state =
                  Inl example_network_message"
    by (simp add: improve_try_def)
  have no_marker: "\<not> js_includes example_network_message (ustr ''API key not valid'')"
    unfolding example_network_message_def by code_simp
  show ?thesis
    using other_failure_reports_detail [OF k example_key_nonempty p thrown no_marker]
      k example_key_nonempty p thrown no_marker
    by simp
qed

text \<open>
  C9. For every response that resolves to a text whose parsed value is an object with both
  required fields, one of them being the empty string, a run that passed both checks
  treats the response as an error: the \<open>try\<close> block throws \<open>Invalid response format from the
  AI.\<close>, the status is the generic error status, the improved-prompt field stays empty, and
  the explanation field holds the detail of that error, not a value of the response.
\<close>

theorem empty_string_field_is_error:
  assumes "userApiKey s = Some k" and "k \<noteq> []" and "js_trim (originalPrompt_value s) \<noteq> []"
    and "JSON_parse P (response_text text) = Inr (JObject props)"
    and "map_of props (ustr ''improvedPrompt'') = Some a"
    and "map_of props (ustr ''explanation'') = Some b"
    and "a = JString [] \<or> b = JString []"
  shows "improve_try P (Resolved text) s = Inl (ustr ''Invalid response format from the AI.'')
         \<and> status_textContent (handleImproveClick P (Resolved text) s) =
             ustr ''An error occurred. Please check the console and try again.''
         \<and> improvedPrompt_value (handleImproveClick P (Resolved text) s) = []
         \<and> explanation_value (handleImproveClick P (Resolved text) s) =
             ustr ''Error Details: '' @ ustr ''Invalid response format from the AI.''"
proof -
  have "\<not> truthy (Some a) \<or> \<not> truthy (Some b)"
    using assms(7) by auto
  then have falsy:
    "\<not> truthy (case get_property P (JObject props) (ustr ''improvedPrompt'') of
                  Inr v \<Rightarrow> v | Inl _ \<Rightarrow> None)
     \<or> \<not> truthy (case get_property P (JObject props) (ustr ''explanation'') of
                    Inr v \<Rightarrow> v | Inl _ \<Rightarrow> None)"
    using assms(5,6) by (simp add: get_property_def)
  have thrown: "improve_try P (Resolved text) s = Inl (ustr ''Invalid response format from the AI.'')"
    using assms(4) falsy by (simp add: improve_try_invalid_format)
  show ?thesis
    using thrown failed_run(1-3) [OF assms(1-3) thrown] marker_not_in_invalid_format
    by simp
qed

theorem empty_string_field_is_error_witness:
  "userApiKey example_state = Some example_key
   \<and> example_key \<noteq> []
   \<and> js_trim (originalPrompt_value example_state) \<noteq> []
   \<and> JSON_parse (example_platform example_text_empty example_json_empty)
        (response_text (Some example_text_empty)) = Inr example_json_empty
   \<and> status_textContent
        (handleImproveClick (example_platform example_text_empty example_json_empty)
           (Resolved (Some example_text_empty)) example_state)
       = ustr ''An error occurred. Please check the console and try again.''
   \<and> improvedPrompt_value
        (handleImproveClick (example_platform example_text_empty example_json_empty)
           (Resolved (Some example_text_empty)) example_state) = []
   \<and> explanation_value
        (handleImproveClick (example_platform example_text_empty example_json_empty)
           (Resolved (Some example_text_empty)) example_state)
       = ustr ''Error Details: '' @ ustr ''Invalid response format from the AI.''"
proof -
  let ?P = "example_platform example_text_empty example_json_empty"
  let ?props = "[(ustr ''improvedPrompt'', JString []),
                 (ustr ''explanation'', JString (ustr ''The prompt is already clear.''))]"
  have k: "userApiKey example_state = Some example_key"
    by (simp add: example_state_def)
  have p: "js_trim (originalPrompt_value example_state) \<noteq> []"
    by (simp add: example_prompt_trimmed ustr_def)
  have parsed: "JSON_parse ?P (response_text (Some example_text_empty)) = Inr (JObject ?props)"
    by (simp add: example_parse example_json_empty_def)
  have a: "map_of ?props (ustr ''improvedPrompt'') = Some (JString [])"
    by simp
  have b: "map_of ?props (ustr ''explanation'') = Some (JString (ustr ''The prompt is already clear.''))"
    using field_names_differ by simp
  have e: "JString [] = JString [] \<or> JString (ustr ''The prompt is already clear.'') = JString []"
    by simp
  show ?thesis
    using empty_string_field_is_error [OF k example_key_nonempty p parsed a b e]
      k example_key_nonempty p example_parse [of example_text_empty example_json_empty]
    by simp
qed

section \<open>The trigger control while a request is in flight\<close>

text \<open>
  Within the handler the control is disabled before the request is issued, and the
  \<open>finally\<close> block enables it whatever the outcome.
\<close>

lemma disabled_when_request_issued:
  "handleImproveClick_start s = Awaiting s1 \<Longrightarrow>
     improveButton_disabled s1 \<and> length (requests s1) = Suc (length (requests s))"
  by (auto simp: handleImproveClick_start_def setLoadingState_def clearOutputs_def Let_def
      split: option.splits if_splits)

lemma no_request_when_returned:
  "handleImproveClick_start s = Returned s1 \<Longrightarrow> requests s1 = requests s"
  by (auto simp: handleImproveClick_start_def showApiKeyModal_def Let_def
      split: option.splits if_splits)

lemma enabled_when_request_finished:
  "\<not> improveButton_disabled (handleImproveClick_resume P outcome s)"
  by (simp add: handleImproveClick_resume_def setLoadingState_def)

text \<open>
  C7. The code does not keep the control disabled for the duration of the request. The
  save operation of the credential modal sets the control from the key alone, also
  while the handler is suspended. On the example page: the improve handler issues its
  request and is suspended with the control disabled; the settings button shows the
  modal, filled with the current key; saving it enables the control; a second click then
  issues a second request while the first has not finished.
\<close>

theorem second_request_while_first_in_flight:
  "in_flight (handleImproveClick_start example_state)
   \<and> improveButton_disabled (page_of (handleImproveClick_start example_state))
   \<and> length (requests (page_of (handleImproveClick_start example_state))) = 1
   \<and> \<not> improveButton_disabled
          (saveApiKey (showApiKeyModal (page_of (handleImproveClick_start example_state))))
   \<and> in_flight (handleImproveClick_start
          (saveApiKey (showApiKeyModal (page_of (handleImproveClick_start example_state)))))
   \<and> length (requests (page_of (handleImproveClick_start
          (saveApiKey (showApiKeyModal (page_of (handleImproveClick_start example_state))))))) = 2"
proof -
  have k: "userApiKey example_state = Some example_key"
    by (simp add: example_state_def)
  have p: "js_trim (originalPrompt_value example_state) \<noteq> []"
    by (simp add: example_prompt_trimmed ustr_def)
  have r: "requests example_state = []"
    by (simp add: example_state_def)
  have trimmed_key: "js_trim example_key = example_key"
    by (simp add: example_key_def js_trim_def is_js_whitespace_def ustr_def)
  note first = start_valid [OF k example_key_nonempty p]
  let ?s1 = "page_of (handleImproveClick_start example_state)"
  let ?s2 = "saveApiKey (showApiKeyModal ?s1)"
  have k1: "userApiKey ?s1 = Some example_key"
    and p1: "originalPrompt_value ?s1 = originalPrompt_value example_state"
    and r1: "length (requests ?s1) = 1"
    and d1: "improveButton_disabled ?s1"
    by (simp_all add: first k r)
  have input: "apiKeyInput_value (showApiKeyModal ?s1) = example_key"
    using example_key_nonempty by (simp add: showApiKeyModal_def k1)
  have k2: "userApiKey ?s2 = Some example_key"
    and p2: "js_trim (originalPrompt_value ?s2) \<noteq> []"
    and r2: "length (requests ?s2) = 1"
    and d2: "\<not> improveButton_disabled ?s2"
    using example_key_nonempty p
    by (simp_all add: saveApiKey_def updateUiForApiKey_def hideApiKeyModal_def key_falsy_def
        Let_def input trimmed_key, simp_all add: showApiKeyModal_def p1 r1)
  note second = start_valid [OF k2 example_key_nonempty p2]
  have f1: "in_flight (handleImproveClick_start example_state)"
    by (simp add: first)
  have f2: "in_flight (handleImproveClick_start ?s2)"
    by (simp only: second in_flight.simps)
  have r3: "length (requests (page_of (handleImproveClick_start ?s2))) = 2"
    by (simp only: second page_of.simps) (simp add: r2)
  from f1 d1 r1 d2 f2 r3 show ?thesis
    by (intro conjI)
qed

end
